theory Spec2Isabelle
  imports Main "HOL-Library.Word"
begin

unbundle bit_operations_syntax

section \<open>Vendor commands of the POSIX daemon (src/posix/platform/daemon.cpp)\<close>

subsection \<open>Machine types, error codes and C strings\<close>

type_synonym uint8_t = "8 word"
type_synonym int8_t = "8 word"

text \<open>
  The values of \<open>otError\<close> that the vendor handlers produce or compare against.
  \<open>OT_ERROR_OTHER\<close> stands for every further code a platform primitive may hand back.
\<close>

datatype otError =
    OT_ERROR_NONE
  | OT_ERROR_FAILED
  | OT_ERROR_INVALID_ARGS
  | OT_ERROR_NOT_IMPLEMENTED
  | OT_ERROR_OTHER nat

text \<open>
  An argument \<open>aArgs[i]\<close> is a NUL-terminated C string; it is modelled by the list of its
  characters before the terminator. Reading index \<open>length s\<close> yields the terminator.
  An index beyond the terminator is outside the string in C; the only such read in the
  handlers is \<open>hex[1]\<close> of an empty token, whose value cannot change the outcome because
  the length test fails, so it is read as NUL as well.
\<close>

definition cstr_at :: "string \<Rightarrow> nat \<Rightarrow> uint8_t" where
  "cstr_at s i = (if i < length s then of_char (s ! i) else 0)"

definition strlen :: "string \<Rightarrow> nat" where
  "strlen s = length s"

text \<open>
  \<open>atoi\<close> of the C library: skip white space, take an optional sign, then read decimal
  digits up to the first other character. The C standard leaves the result undefined when
  the number does not fit an \<open>int\<close>; the model keeps the mathematical value, and every
  caller narrows it with a cast.
\<close>

definition isspace :: "char \<Rightarrow> bool" where
  "isspace c = (of_char c \<in> {32, 9, 10, 11, 12, 13 :: nat})"

definition isdigit :: "char \<Rightarrow> bool" where
  "isdigit c = (48 \<le> (of_char c :: nat) \<and> (of_char c :: nat) \<le> 57)"

fun atoi_digits :: "int \<Rightarrow> string \<Rightarrow> int" where
  "atoi_digits acc [] = acc"
| "atoi_digits acc (c # cs) =
     (if isdigit c then atoi_digits (acc * 10 + (of_char c - 48)) cs else acc)"

definition atoi :: "string \<Rightarrow> int" where
  "atoi s =
     (case dropWhile isspace s of
        [] \<Rightarrow> 0
      | c # cs \<Rightarrow>
          if c = CHR ''-'' then - atoi_digits 0 cs
          else if c = CHR ''+'' then atoi_digits 0 cs
          else atoi_digits 0 (c # cs))"

text \<open>The casts \<open>(uint8_t)atoi(s)\<close> and \<open>(int8_t)atoi(s)\<close>: the low eight bits.\<close>

definition atoi_u8 :: "string \<Rightarrow> uint8_t" where
  "atoi_u8 s = word_of_int (atoi s)"

definition atoi_i8 :: "string \<Rightarrow> int8_t" where
  "atoi_i8 s = word_of_int (atoi s)"

text \<open>Division of C \<open>int\<close>s truncates towards zero.\<close>

definition c_div :: "int \<Rightarrow> int \<Rightarrow> int" where
  "c_div a b = sgn a * sgn b * (\<bar>a\<bar> div \<bar>b\<bar>)"

definition CRLF :: string where
  "CRLF = [CHR 0x0D, CHR 0x0A]"

subsection \<open>The platform primitives and the observable world\<close>

text \<open>
  The \<open>otPlatRadio...\<close> primitives are implemented by the radio driver, outside this
  file. They are parameters of the model: a record of transition functions over an
  arbitrary driver state \<open>'p\<close>. \<open>plat_MfgCommand\<close> receives the 12-byte request buffer
  and gives back the buffer as the driver left it together with \<open>outputLen\<close>.
\<close>

record 'p radio_platform =
  plat_SetIRConfig :: "'p \<Rightarrow> uint8_t \<Rightarrow> 'p"
  plat_GetIRConfig :: "'p \<Rightarrow> 'p \<times> uint8_t"
  plat_SetIeeeEui64 :: "'p \<Rightarrow> uint8_t list \<Rightarrow> 'p \<times> otError"
  plat_SetTxPowerLimit :: "'p \<Rightarrow> uint8_t \<Rightarrow> 'p"
  plat_GetTxPowerLimit :: "'p \<Rightarrow> 'p \<times> uint8_t"
  plat_MfgCommand :: "'p \<Rightarrow> uint8_t list \<Rightarrow> 'p \<times> uint8_t list \<times> uint8_t"

text \<open>Every call of a platform primitive is recorded, in order, with its arguments.\<close>

datatype plat_call =
    PlatRadioSetIRConfig uint8_t
  | PlatRadioGetIRConfig
  | PlatRadioSetIeeeEui64 "uint8_t list"
  | PlatRadioSetTxPowerLimit uint8_t
  | PlatRadioGetTxPowerLimit
  | PlatRadioMfgCommand "uint8_t list"

text \<open>
  The world a handler runs in: the static flag \<open>mfgEnable\<close>, the driver state, the log of
  platform calls, and the log of \<open>otCliOutputFormat\<close> calls (format string and the
  integer arguments passed to it).
\<close>

record 'p world =
  mfgEnable :: uint8_t
  plat :: 'p
  calls :: "plat_call list"
  cli_out :: "(string \<times> int list) list"

definition otCliOutputFormat :: "'p world \<Rightarrow> string \<Rightarrow> int list \<Rightarrow> 'p world" where
  "otCliOutputFormat w fmt vals = w\<lparr>cli_out := cli_out w @ [(fmt, vals)]\<rparr>"

definition otPlatRadioSetIRConfig :: "'p radio_platform \<Rightarrow> 'p world \<Rightarrow> uint8_t \<Rightarrow> 'p world" where
  "otPlatRadioSetIRConfig R w mode =
     w\<lparr>plat := plat_SetIRConfig R (plat w) mode,
       calls := calls w @ [PlatRadioSetIRConfig mode]\<rparr>"

definition otPlatRadioGetIRConfig :: "'p radio_platform \<Rightarrow> 'p world \<Rightarrow> 'p world \<times> uint8_t" where
  "otPlatRadioGetIRConfig R w =
     (case plat_GetIRConfig R (plat w) of
        (p, mode) \<Rightarrow> (w\<lparr>plat := p, calls := calls w @ [PlatRadioGetIRConfig]\<rparr>, mode))"

definition otPlatRadioSetIeeeEui64 ::
  "'p radio_platform \<Rightarrow> 'p world \<Rightarrow> uint8_t list \<Rightarrow> 'p world \<times> otError" where
  "otPlatRadioSetIeeeEui64 R w addr =
     (case plat_SetIeeeEui64 R (plat w) addr of
        (p, e) \<Rightarrow> (w\<lparr>plat := p, calls := calls w @ [PlatRadioSetIeeeEui64 addr]\<rparr>, e))"

definition otPlatRadioSetTxPowerLimit ::
  "'p radio_platform \<Rightarrow> 'p world \<Rightarrow> uint8_t \<Rightarrow> 'p world" where
  "otPlatRadioSetTxPowerLimit R w lim =
     w\<lparr>plat := plat_SetTxPowerLimit R (plat w) lim,
       calls := calls w @ [PlatRadioSetTxPowerLimit lim]\<rparr>"

definition otPlatRadioGetTxPowerLimit ::
  "'p radio_platform \<Rightarrow> 'p world \<Rightarrow> 'p world \<times> uint8_t" where
  "otPlatRadioGetTxPowerLimit R w =
     (case plat_GetTxPowerLimit R (plat w) of
        (p, lim) \<Rightarrow> (w\<lparr>plat := p, calls := calls w @ [PlatRadioGetTxPowerLimit]\<rparr>, lim))"

definition otPlatRadioMfgCommand ::
  "'p radio_platform \<Rightarrow> 'p world \<Rightarrow> uint8_t list \<Rightarrow> 'p world \<times> uint8_t list \<times> uint8_t" where
  "otPlatRadioMfgCommand R w payload =
     (case plat_MfgCommand R (plat w) payload of
        (p, payload', outputLen) \<Rightarrow>
          (w\<lparr>plat := p, calls := calls w @ [PlatRadioMfgCommand payload]\<rparr>, payload', outputLen))"

subsection \<open>ProcessIRConfig and ProcessGetSetTxPowerLimit\<close>

text \<open>
  A handler receives \<open>aArgs\<close> as the list of its argument strings; \<open>aArgsLength\<close> is the
  length of that list.
\<close>

definition ProcessIRConfig ::
  "'p radio_platform \<Rightarrow> 'p world \<Rightarrow> string list \<Rightarrow> 'p world \<times> otError" where
  "ProcessIRConfig R w aArgs =
     (if length aArgs = 1 then
        (let mode = atoi_u8 (aArgs ! 0) in
         if mode < 4 then (otPlatRadioSetIRConfig R w mode, OT_ERROR_NONE)
         else (w, OT_ERROR_INVALID_ARGS))
      else
        (case otPlatRadioGetIRConfig R w of
           (w1, mode) \<Rightarrow> (otCliOutputFormat w1 (''%d'' @ CRLF) [uint mode], OT_ERROR_NONE)))"

definition ProcessGetSetTxPowerLimit ::
  "'p radio_platform \<Rightarrow> 'p world \<Rightarrow> string list \<Rightarrow> 'p world \<times> otError" where
  "ProcessGetSetTxPowerLimit R w aArgs =
     (if length aArgs = 1 then
        (let txPowerLimit = atoi_u8 (aArgs ! 0) in
         (otPlatRadioSetTxPowerLimit R w txPowerLimit, OT_ERROR_NONE))
      else if length aArgs = 0 then
        (case otPlatRadioGetTxPowerLimit R w of
           (w1, txPowerLimit) \<Rightarrow>
             (otCliOutputFormat w1 (''%d'' @ CRLF) [uint txPowerLimit], OT_ERROR_NONE))
      else (w, OT_ERROR_INVALID_ARGS))"

subsection \<open>ProcessSetEui64\<close>

text \<open>
  The two nested loops of ProcessSetEui64. \<open>hex\<close> is the read pointer: the characters
  not yet consumed. \<open>*hex++\<close> reads the first of them (the terminator when none is
  left) and advances. The inner loop leaves with OT_ERROR_FAILED at the first character
  that is no hexadecimal digit; the outer loop runs while \<open>i < 8\<close> and no error is set.
\<close>

function eui64_digits ::
  "nat \<Rightarrow> nat \<Rightarrow> string \<Rightarrow> uint8_t list \<Rightarrow> otError \<times> string \<times> uint8_t list" where
  "eui64_digits i k hex addr =
     (if k < 2 then
        (let byte = cstr_at hex 0; hex' = tl hex in
         if 0x30 \<le> byte \<and> byte \<le> 0x39 then
           eui64_digits i (k + 1) hex'
             (addr[i := push_bit 4 (addr ! i) OR ((byte - 0x30) AND 0xF)])
         else if 0x61 \<le> byte \<and> byte \<le> 0x66 then
           eui64_digits i (k + 1) hex'
             (addr[i := push_bit 4 (addr ! i) OR ((byte - 0x61 + 10) AND 0xF)])
         else if 0x41 \<le> byte \<and> byte \<le> 0x46 then
           eui64_digits i (k + 1) hex'
             (addr[i := push_bit 4 (addr ! i) OR ((byte - 0x41 + 10) AND 0xF)])
         else (OT_ERROR_FAILED, hex', addr))
      else (OT_ERROR_NONE, hex, addr))"
  by pat_completeness auto
termination
  by (relation "measure (\<lambda>(i, k, hex, addr). 2 - k)") auto

function eui64_bytes ::
  "nat \<Rightarrow> otError \<Rightarrow> string \<Rightarrow> uint8_t list \<Rightarrow> otError \<times> uint8_t list" where
  "eui64_bytes i error hex addr =
     (if i < 8 \<and> error = OT_ERROR_NONE then
        (case eui64_digits i 0 hex (addr[i := 0]) of
           (error', hex', addr') \<Rightarrow> eui64_bytes (i + 1) error' hex' addr')
      else (error, addr))"
  by pat_completeness auto
termination
  by (relation "measure (\<lambda>(i, error, hex, addr). 8 - i)") auto

text \<open>
  \<open>addr\<close> is an uninitialised local; each of its eight bytes is cleared by the outer loop
  before it is used, so the model starts it from zeroes.
\<close>

definition ProcessSetEui64 ::
  "'p radio_platform \<Rightarrow> 'p world \<Rightarrow> string list \<Rightarrow> 'p world \<times> otError" where
  "ProcessSetEui64 R w aArgs =
     (if length aArgs = 1 then
        (let hex = aArgs ! 0 in
         if cstr_at hex 1 = of_char CHR ''x'' \<and> strlen (aArgs ! 0) = 18 then
           (case eui64_bytes 0 OT_ERROR_NONE (drop 2 hex) [0, 0, 0, 0, 0, 0, 0, 0] of
              (error, addr) \<Rightarrow>
                if error = OT_ERROR_NONE then otPlatRadioSetIeeeEui64 R w addr
                else (w, error))
         else (w, OT_ERROR_INVALID_ARGS))
      else (w, OT_ERROR_INVALID_ARGS))"

subsection \<open>The manufacturing commands\<close>

abbreviation (input) MFG_CMD_ACTION_GET :: uint8_t where "MFG_CMD_ACTION_GET \<equiv> 0"
abbreviation (input) MFG_CMD_ACTION_SET :: uint8_t where "MFG_CMD_ACTION_SET \<equiv> 1"

abbreviation (input) MFG_CMD_GET_SET_CHANNEL :: uint8_t where "MFG_CMD_GET_SET_CHANNEL \<equiv> 0x0b"
abbreviation (input) MFG_CMD_GET_SET_TXPOWER :: uint8_t where "MFG_CMD_GET_SET_TXPOWER \<equiv> 0x0f"
abbreviation (input) MFG_CMD_CONTINUOUS_TX :: uint8_t where "MFG_CMD_CONTINUOUS_TX \<equiv> 0x11"
abbreviation (input) MFG_CMD_GET_SET_PAYLOAD_SIZE :: uint8_t where "MFG_CMD_GET_SET_PAYLOAD_SIZE \<equiv> 0x14"
abbreviation (input) MFG_CMD_GET_RX_RESULT :: uint8_t where "MFG_CMD_GET_RX_RESULT \<equiv> 0x1f"
abbreviation (input) MFG_CMD_START_RX_TEST :: uint8_t where "MFG_CMD_START_RX_TEST \<equiv> 0x20"
abbreviation (input) MFG_CMD_BURST_TX :: uint8_t where "MFG_CMD_BURST_TX \<equiv> 0x21"
abbreviation (input) MFG_CMD_DUTY_CYCLE_TX :: uint8_t where "MFG_CMD_DUTY_CYCLE_TX \<equiv> 0x23"
abbreviation (input) MFG_CMD_GET_SET_CCA_THRESHOLD :: uint8_t where "MFG_CMD_GET_SET_CCA_THRESHOLD \<equiv> 0x2F"
abbreviation (input) MFG_CMD_CONTINOUS_CCA_TEST :: uint8_t where "MFG_CMD_CONTINOUS_CCA_TEST \<equiv> 0x31"
abbreviation (input) MFG_CMD_GET_CCA_STATUS :: uint8_t where "MFG_CMD_GET_CCA_STATUS \<equiv> 0x32"
abbreviation (input) MFG_CMD_CONTINOUS_ED_TEST :: uint8_t where "MFG_CMD_CONTINOUS_ED_TEST \<equiv> 0x37"
abbreviation (input) MFG_CMD_GET_ED_VALUE :: uint8_t where "MFG_CMD_GET_ED_VALUE \<equiv> 0x38"
abbreviation (input) MFG_CMD_PHY_TX_TEST_PSDU :: uint8_t where "MFG_CMD_PHY_TX_TEST_PSDU \<equiv> 0x39"
abbreviation (input) MFG_CMD_PHY_RX_TX_ACK_TEST :: uint8_t where "MFG_CMD_PHY_RX_TX_ACK_TEST \<equiv> 0x3A"
abbreviation (input) MFG_CMD_SET_GENERIC_PARAM :: uint8_t where "MFG_CMD_SET_GENERIC_PARAM \<equiv> 0x3B"

text \<open>\<open>uint8_t payload[12] = {11}\<close>: the length marker, then zeroes.\<close>

definition payload_init :: "uint8_t list" where
  "payload_init = [11, 0, 0, 0, 0, 0, 0, 0, 0, 0, 0, 0]"

abbreviation (input) payloadLen :: nat where "payloadLen \<equiv> 12"

definition ProcessMfgGetInt8 ::
  "'p radio_platform \<Rightarrow> 'p world \<Rightarrow> uint8_t \<Rightarrow> nat \<Rightarrow> 'p world \<times> otError" where
  "ProcessMfgGetInt8 R w cmdId aArgsLength =
     (if aArgsLength = 1 then
        (case otPlatRadioMfgCommand R w (payload_init[1 := cmdId, 2 := MFG_CMD_ACTION_GET]) of
           (w1, payload, outputLen) \<Rightarrow>
             if outputLen \<ge> 5 \<and> payload ! 3 = 0 then
               (if cmdId = MFG_CMD_GET_SET_TXPOWER
                then (otCliOutputFormat w1 (''%d'' @ CRLF) [c_div (sint (payload ! 4)) 2],
                      OT_ERROR_NONE)
                else (otCliOutputFormat w1 (''%d'' @ CRLF) [sint (payload ! 4)],
                      OT_ERROR_NONE))
             else (w1, OT_ERROR_FAILED))
      else (w, OT_ERROR_INVALID_ARGS))"

text \<open>
  The bounds \<open>min\<close> and \<open>max\<close> of the source are \<open>int8_t\<close>; the comparisons read
  all three bytes as signed.
\<close>

definition ProcessMfgSetInt8 ::
  "'p radio_platform \<Rightarrow> 'p world \<Rightarrow> uint8_t \<Rightarrow> string list \<Rightarrow> int8_t \<Rightarrow> int8_t \<Rightarrow>
   'p world \<times> otError" where
  "ProcessMfgSetInt8 R w cmdId aArgs min_val max_val =
     (if length aArgs = 2 then
        (let setValue = atoi_i8 (aArgs ! 1) in
         if sint min_val \<le> sint setValue \<and> sint setValue \<le> sint max_val then
           (let payload =
                  (if cmdId = MFG_CMD_GET_SET_TXPOWER
                   then payload_init[1 := cmdId, 2 := MFG_CMD_ACTION_SET, 4 := push_bit 1 setValue]
                   else payload_init[1 := cmdId, 2 := MFG_CMD_ACTION_SET, 4 := setValue])
            in case otPlatRadioMfgCommand R w payload of
                 (w1, payload', outputLen) \<Rightarrow>
                   if outputLen \<ge> 4 \<and> payload' ! 3 = 0 then (w1, OT_ERROR_NONE)
                   else (w1, OT_ERROR_FAILED))
         else (w, OT_ERROR_INVALID_ARGS))
      else (w, OT_ERROR_INVALID_ARGS))"

text \<open>
  \<open>strtol(s, NULL, 16)\<close> of the C library: white space, an optional sign, an optional
  \<open>0x\<close> or \<open>0X\<close>, then hexadecimal digits; the result saturates at the bounds of
  \<open>long\<close> (64 bits here).
\<close>

definition xdigit_val :: "char \<Rightarrow> int option" where
  "xdigit_val c =
     (let n = (of_char c :: int) in
      if 48 \<le> n \<and> n \<le> 57 then Some (n - 48)
      else if 97 \<le> n \<and> n \<le> 102 then Some (n - 97 + 10)
      else if 65 \<le> n \<and> n \<le> 70 then Some (n - 65 + 10)
      else None)"

text \<open>\<open>isxdigit\<close> of the C library, on the characters of an argument.\<close>

definition isxdigit :: "char \<Rightarrow> bool" where
  "isxdigit c = (xdigit_val c \<noteq> None)"

fun strtol_xdigits :: "int \<Rightarrow> string \<Rightarrow> int" where
  "strtol_xdigits acc [] = acc"
| "strtol_xdigits acc (c # cs) =
     (case xdigit_val c of Some d \<Rightarrow> strtol_xdigits (acc * 16 + d) cs | None \<Rightarrow> acc)"

definition strtol_prefix16 :: "string \<Rightarrow> string" where
  "strtol_prefix16 s =
     (case s of
        c # d # cs \<Rightarrow> if c = CHR ''0'' \<and> (d = CHR ''x'' \<or> d = CHR ''X'') then cs else s
      | _ \<Rightarrow> s)"

definition strtol16 :: "string \<Rightarrow> int" where
  "strtol16 s =
     (let v = (case dropWhile isspace s of
                 [] \<Rightarrow> 0
               | c # cs \<Rightarrow>
                   if c = CHR ''-'' then - strtol_xdigits 0 (strtol_prefix16 cs)
                   else if c = CHR ''+'' then strtol_xdigits 0 (strtol_prefix16 cs)
                   else strtol_xdigits 0 (strtol_prefix16 (c # cs)))
      in max (- (2 ^ 63)) (min (2 ^ 63 - 1) v))"

definition strtol16_u16 :: "string \<Rightarrow> 16 word" where
  "strtol16_u16 s = word_of_int (strtol16 s)"

text \<open>
  The \<open>switch (cmdId)\<close> of ProcessMfgCommands. The local \<open>payload\<close> of ProcessMfgCommands
  is written by some cases before they validate; nothing reads those bytes later (the
  raw path overwrites all twelve), so a case hands on the world and the error only.
\<close>

definition MfgCommands_switch ::
  "'p radio_platform \<Rightarrow> 'p world \<Rightarrow> uint8_t \<Rightarrow> string list \<Rightarrow> 'p world \<times> otError" where
  "MfgCommands_switch R w cmdId aArgs =
     (if cmdId = MFG_CMD_GET_SET_CHANNEL then
        ProcessMfgGetInt8 R w MFG_CMD_GET_SET_CHANNEL (length aArgs)
      else if cmdId = MFG_CMD_GET_SET_CHANNEL + 1 then
        ProcessMfgSetInt8 R w MFG_CMD_GET_SET_CHANNEL aArgs 11 26
      else if cmdId = MFG_CMD_GET_SET_TXPOWER then
        ProcessMfgGetInt8 R w MFG_CMD_GET_SET_TXPOWER (length aArgs)
      else if cmdId = MFG_CMD_GET_SET_TXPOWER + 1 then
        ProcessMfgSetInt8 R w MFG_CMD_GET_SET_TXPOWER aArgs (- 20) 22
      else if cmdId = MFG_CMD_CONTINUOUS_TX then
        ProcessMfgSetInt8 R w MFG_CMD_CONTINUOUS_TX aArgs 0 1
      else if cmdId = MFG_CMD_GET_SET_PAYLOAD_SIZE then
        ProcessMfgGetInt8 R w MFG_CMD_GET_SET_PAYLOAD_SIZE (length aArgs)
      else if cmdId = MFG_CMD_GET_SET_PAYLOAD_SIZE + 1 then
        ProcessMfgSetInt8 R w MFG_CMD_GET_SET_PAYLOAD_SIZE aArgs 17 116
      else if cmdId = MFG_CMD_GET_RX_RESULT then
        (if length aArgs = 1 then
           (case otPlatRadioMfgCommand R w
                   (payload_init[1 := MFG_CMD_GET_RX_RESULT, 2 := MFG_CMD_ACTION_GET]) of
              (w1, payload, outputLen) \<Rightarrow>
                if outputLen \<ge> 11 then
                  (let w2 = otCliOutputFormat w1 (''status : %d'' @ CRLF) [uint (payload ! 4)];
                       w3 = otCliOutputFormat w2 (''rx_pkt_count : %d'' @ CRLF)
                              [uint (payload ! 5) OR push_bit 8 (uint (payload ! 6))];
                       w4 = otCliOutputFormat w3 (''total_pkt_count : %d'' @ CRLF)
                              [uint (payload ! 7) OR push_bit 8 (uint (payload ! 8))];
                       w5 = otCliOutputFormat w4 (''rssi : %d'' @ CRLF) [sint (payload ! 9)];
                       w6 = otCliOutputFormat w5 (''lqi : %d'' @ CRLF) [uint (payload ! 10)]
                   in (w6, OT_ERROR_NONE))
                else (w1, OT_ERROR_FAILED))
         else (w, OT_ERROR_INVALID_ARGS))
      else if cmdId = MFG_CMD_START_RX_TEST then
        (if length aArgs = 1 then
           (case otPlatRadioMfgCommand R w (payload_init[1 := MFG_CMD_START_RX_TEST]) of
              (w1, payload, outputLen) \<Rightarrow> (w1, OT_ERROR_NONE))
         else (w, OT_ERROR_INVALID_ARGS))
      else if cmdId = MFG_CMD_BURST_TX then
        (if length aArgs = 3 then
           (let mode = atoi_u8 (aArgs ! 1); gap = atoi_u8 (aArgs ! 2) in
            if mode < 8 \<and> gap > 5 then
              (case otPlatRadioMfgCommand R w
                      (payload_init[1 := MFG_CMD_BURST_TX, 4 := mode, 5 := gap]) of
                 (w1, payload, outputLen) \<Rightarrow> (w1, OT_ERROR_NONE))
            else (w, OT_ERROR_INVALID_ARGS))
         else (w, OT_ERROR_INVALID_ARGS))
      else if cmdId = MFG_CMD_DUTY_CYCLE_TX then
        ProcessMfgSetInt8 R w MFG_CMD_DUTY_CYCLE_TX aArgs 0 1
      else if cmdId = MFG_CMD_GET_SET_CCA_THRESHOLD then
        ProcessMfgGetInt8 R w MFG_CMD_GET_SET_CCA_THRESHOLD (length aArgs)
      else if cmdId = MFG_CMD_GET_SET_CCA_THRESHOLD + 1 then
        ProcessMfgSetInt8 R w MFG_CMD_GET_SET_CCA_THRESHOLD aArgs (- 110) 0
      else if cmdId = MFG_CMD_CONTINOUS_CCA_TEST then
        (if length aArgs = 3 then
           (let payload = payload_init[1 := MFG_CMD_CONTINOUS_CCA_TEST, 2 := MFG_CMD_ACTION_SET,
                                       4 := atoi_u8 (aArgs ! 1), 5 := atoi_u8 (aArgs ! 2)] in
            if payload ! 4 < 2 \<and> payload ! 5 < 4 then
              (case otPlatRadioMfgCommand R w payload of
                 (w1, payload', outputLen) \<Rightarrow>
                   if outputLen \<ge> 4 \<and> payload' ! 3 = 0 then (w1, OT_ERROR_NONE)
                   else (w1, OT_ERROR_FAILED))
            else (w, OT_ERROR_INVALID_ARGS))
         else (w, OT_ERROR_INVALID_ARGS))
      else if cmdId = MFG_CMD_GET_CCA_STATUS then
        ProcessMfgGetInt8 R w MFG_CMD_GET_CCA_STATUS (length aArgs)
      else if cmdId = MFG_CMD_CONTINOUS_ED_TEST then
        ProcessMfgSetInt8 R w MFG_CMD_CONTINOUS_ED_TEST aArgs 0 1
      else if cmdId = MFG_CMD_GET_ED_VALUE then
        ProcessMfgGetInt8 R w MFG_CMD_GET_ED_VALUE (length aArgs)
      else if cmdId = MFG_CMD_PHY_TX_TEST_PSDU then
        (if length aArgs = 4 then
           (let count_opt = atoi_u8 (aArgs ! 1);
                gap = atoi_u8 (aArgs ! 2);
                ackEnable = atoi_u8 (aArgs ! 3) in
            if count_opt < 8 \<and> gap > 5 \<and> ackEnable < 2 then
              (case otPlatRadioMfgCommand R w
                      (payload_init[1 := MFG_CMD_PHY_TX_TEST_PSDU, 2 := MFG_CMD_ACTION_SET,
                                    4 := count_opt, 5 := gap, 6 := ackEnable]) of
                 (w1, payload, outputLen) \<Rightarrow> (w1, OT_ERROR_NONE))
            else (w, OT_ERROR_INVALID_ARGS))
         else (w, OT_ERROR_INVALID_ARGS))
      else if cmdId = MFG_CMD_PHY_RX_TX_ACK_TEST then
        ProcessMfgSetInt8 R w MFG_CMD_PHY_RX_TX_ACK_TEST aArgs 0 1
      else if cmdId = MFG_CMD_SET_GENERIC_PARAM then
        (if length aArgs = 5 then
           (let panid = strtol16_u16 (aArgs ! 2);
                destaddr = strtol16_u16 (aArgs ! 3);
                srcaddr = strtol16_u16 (aArgs ! 4) in
            case otPlatRadioMfgCommand R w
                   (payload_init[1 := MFG_CMD_SET_GENERIC_PARAM, 2 := MFG_CMD_ACTION_SET,
                                 4 := atoi_u8 (aArgs ! 1),
                                 5 := ucast (panid AND 0xFF),
                                 6 := ucast (drop_bit 8 panid AND 0xFF),
                                 7 := ucast (destaddr AND 0xFF),
                                 8 := ucast (drop_bit 8 destaddr AND 0xFF),
                                 9 := ucast (srcaddr AND 0xFF),
                                 10 := ucast (drop_bit 8 srcaddr AND 0xFF)]) of
              (w1, payload, outputLen) \<Rightarrow> (w1, OT_ERROR_NONE))
         else (w, OT_ERROR_INVALID_ARGS))
      else (w, OT_ERROR_NOT_IMPLEMENTED))"

text \<open>The opcodes that have a \<open>case\<close> label in the switch.\<close>

definition mfg_case_labels :: "uint8_t list" where
  "mfg_case_labels =
     [11, 12, 15, 16, 17, 20, 21, 31, 32, 33, 35, 47, 48, 49, 50, 55, 56, 57, 58, 59]"

text \<open>
  The tail of ProcessMfgCommands, after the comment \<open>HANDLE ERRORS\<close>. When the caller
  passed twelve arguments and the switch did not succeed, every argument is parsed into
  one payload byte, the frame is sent, and the first \<open>outputLen\<close> bytes of the buffer are
  printed. (\<open>payload ! idx\<close> with \<open>idx \<ge> 12\<close> is a read past the buffer in C and
  unspecified here; a driver that respects the buffer reports at most 12.)
\<close>

definition MfgCommands_handle_errors ::
  "'p radio_platform \<Rightarrow> 'p world \<Rightarrow> otError \<Rightarrow> string list \<Rightarrow> 'p world \<times> otError" where
  "MfgCommands_handle_errors R w error aArgs =
     (if error = OT_ERROR_NONE then (w, error)
      else if length aArgs = payloadLen then
        (case otPlatRadioMfgCommand R w (map (\<lambda>idx. atoi_u8 (aArgs ! idx)) [0..<payloadLen]) of
           (w1, payload, outputLen) \<Rightarrow>
             (let w2 = foldl (\<lambda>v idx. otCliOutputFormat v ''%d '' [uint (payload ! idx)])
                         w1 [0..<unat outputLen]
              in (otCliOutputFormat w2 CRLF [], OT_ERROR_NONE)))
      else if error = OT_ERROR_INVALID_ARGS then (w, error)
      else if error = OT_ERROR_NOT_IMPLEMENTED then
        (otCliOutputFormat w (''NOT IMPLEMENTED'' @ CRLF) [], error)
      else (otCliOutputFormat w (''FAILED'' @ CRLF) [], error))"

definition mfg_not_enabled_msg :: string where
  "mfg_not_enabled_msg = ''MFG command not enabled. to enable it : mfgcmd 1'' @ CRLF"

definition ProcessMfgCommands ::
  "'p radio_platform \<Rightarrow> 'p world \<Rightarrow> string list \<Rightarrow> 'p world \<times> otError" where
  "ProcessMfgCommands R w aArgs =
     (if length aArgs = 1 \<and> (atoi_u8 (aArgs ! 0) = 0 \<or> atoi_u8 (aArgs ! 0) = 1) then
        (w\<lparr>mfgEnable := atoi_u8 (aArgs ! 0)\<rparr>, OT_ERROR_NONE)
      else if mfgEnable w = 0 then
        (otCliOutputFormat w mfg_not_enabled_msg [], OT_ERROR_NONE)
      else
        (case (if length aArgs > 0 \<and> mfgEnable w = 1
               then MfgCommands_switch R w (atoi_u8 (aArgs ! 0)) aArgs
               else (w, OT_ERROR_INVALID_ARGS)) of
           (w1, error) \<Rightarrow> MfgCommands_handle_errors R w1 error aArgs))"

subsection \<open>A test double for the radio driver\<close>

text \<open>
  A driver with one register, used to run the handlers on concrete inputs. A SET frame
  stores payload byte 4 in the register and is acknowledged with four bytes; any other
  frame is answered with five bytes, the register in byte 4. The status byte is 0.
\<close>

definition test_radio :: "uint8_t radio_platform" where
  "test_radio =
     \<lparr>plat_SetIRConfig = (\<lambda>p mode. p),
      plat_GetIRConfig = (\<lambda>p. (p, 2)),
      plat_SetIeeeEui64 = (\<lambda>p addr. (p, OT_ERROR_NONE)),
      plat_SetTxPowerLimit = (\<lambda>p lim. p),
      plat_GetTxPowerLimit = (\<lambda>p. (p, 30)),
      plat_MfgCommand = (\<lambda>p payload.
         if payload ! 2 = MFG_CMD_ACTION_SET then (payload ! 4, payload[3 := 0], 4)
         else (p, payload[3 := 0, 4 := p], 5))\<rparr>"

text \<open>A driver that answers every frame with a non-zero status byte.\<close>

definition nack_radio :: "uint8_t radio_platform" where
  "nack_radio = test_radio\<lparr>plat_MfgCommand := (\<lambda>p payload. (p, payload[3 := 1], 5))\<rparr>"


definition world_enabled :: "uint8_t world" where
  "world_enabled = \<lparr>mfgEnable = 1, plat = 0, calls = [], cli_out = []\<rparr>"

section \<open>The session server (class Daemon)\<close>

text \<open>
  The two descriptors of the daemon, together with what the kernel does on its behalf:
  \<open>live\<close> is the set of client connections that \<open>accept\<close> has handed out and \<open>close\<close>
  has not yet released, and \<open>sys\<close> is the sequence of system calls made so far.
\<close>

datatype syscall =
    SysAccept int
  | SysClose int
  | SysSend int string

record daemon =
  mListenSocket :: int
  mSessionSocket :: int
  live :: "int set"
  sys :: "syscall list"

datatype exit_status = OT_EXIT_FAILURE

text \<open>The fd sets of \<open>otSysMainloopContext\<close> that Daemon::Process tests.\<close>

record otSysMainloopContext =
  mReadFdSet :: "int set"
  mErrorFdSet :: "int set"

text \<open>
  What the environment answers during one poll tick: the results of \<open>accept\<close>, of the two
  \<open>fcntl\<close> calls and of \<open>read\<close>, and, for a line handed to the CLI, the outputs it
  produces (the formatted text and the result of the \<open>send\<close> that carries it).
\<close>

record tick_env =
  accept_rval :: int
  getfd_rval :: int
  setfd_rval :: int
  read_rval :: int
  cli_outputs :: "(string \<times> int) list"

definition sys_accept :: "daemon \<Rightarrow> int \<Rightarrow> daemon" where
  "sys_accept d fd =
     d\<lparr>live := (if fd = - 1 then live d else insert fd (live d)),
       sys := sys d @ [SysAccept fd]\<rparr>"

definition sys_close :: "daemon \<Rightarrow> int \<Rightarrow> daemon" where
  "sys_close d fd = d\<lparr>live := live d - {fd}, sys := sys d @ [SysClose fd]\<rparr>"

definition truncatedMsg :: string where
  "truncatedMsg = ''(truncated ...)''"

text \<open>
  Daemon::OutputFormatV on Linux. \<open>text\<close> is the complete formatted output, so
  \<open>vsnprintf\<close> returns its length and stores its first \<open>maxLine - 1\<close> characters;
  \<open>maxLine\<close> is OPENTHREAD_CONFIG_CLI_MAX_LINE_LENGTH, a configuration constant larger
  than the 16 bytes of \<open>truncatedMsg\<close>. A failing \<open>vsnprintf\<close> is not modelled.
\<close>

definition OutputFormatV :: "nat \<Rightarrow> daemon \<Rightarrow> string \<Rightarrow> int \<Rightarrow> daemon \<times> int" where
  "OutputFormatV maxLine d text send_rval =
     (let rval = (if int (length text) \<ge> int maxLine then int maxLine - 1 else int (length text));
          buf = (if int (length text) \<ge> int maxLine
                 then take (maxLine - 16) text @ truncatedMsg else text)
      in if mSessionSocket d = - 1 then (d, rval)
         else
           (let d1 = d\<lparr>sys := sys d @ [SysSend (mSessionSocket d) buf]\<rparr> in
            if send_rval < 0
            then ((sys_close d1 (mSessionSocket d1))\<lparr>mSessionSocket := - 1\<rparr>, send_rval)
            else (d1, send_rval)))"

text \<open>
  Daemon::InitializeSessionSocket on Linux. The three arguments are the results of
  \<open>accept\<close>, \<open>fcntl(F_GETFD)\<close> and \<open>fcntl(F_SETFD)\<close>; a later call is only made when the
  earlier ones did not return -1.
\<close>

definition InitializeSessionSocket :: "daemon \<Rightarrow> int \<Rightarrow> int \<Rightarrow> int \<Rightarrow> daemon" where
  "InitializeSessionSocket d newSessionSocket getfd setfd =
     (let d1 = sys_accept d newSessionSocket in
      if newSessionSocket = - 1 then d1
      else if getfd = - 1 then sys_close d1 newSessionSocket
      else if setfd = - 1 then sys_close d1 newSessionSocket
      else
        (let d2 = (if mSessionSocket d1 \<noteq> - 1 then sys_close d1 (mSessionSocket d1) else d1)
         in d2\<lparr>mSessionSocket := newSessionSocket\<rparr>))"

text \<open>
  Daemon::Process. DieNowWithMessage ends the process: the result \<open>Inl\<close>. A positive
  \<open>read\<close> hands the line to the CLI (or, with the CLI disabled, prints one message);
  either way the daemon is touched through OutputFormatV only, once per output.
\<close>

definition Process ::
  "nat \<Rightarrow> daemon \<Rightarrow> otSysMainloopContext \<Rightarrow> tick_env \<Rightarrow> exit_status + daemon" where
  "Process maxLine d aContext env =
     (if mListenSocket d = - 1 then Inr d
      else if mListenSocket d \<in> mErrorFdSet aContext then Inl OT_EXIT_FAILURE
      else
        (let d1 = (if mListenSocket d \<in> mReadFdSet aContext
                   then InitializeSessionSocket d (accept_rval env) (getfd_rval env) (setfd_rval env)
                   else d)
         in if mSessionSocket d1 = - 1 then Inr d1
            else if mSessionSocket d1 \<in> mErrorFdSet aContext then
              Inr ((sys_close d1 (mSessionSocket d1))\<lparr>mSessionSocket := - 1\<rparr>)
            else if mSessionSocket d1 \<in> mReadFdSet aContext then
              (if read_rval env > 0 then
                 Inr (foldl (\<lambda>v (text, send_rval). fst (OutputFormatV maxLine v text send_rval))
                        d1 (cli_outputs env))
               else Inr ((sys_close d1 (mSessionSocket d1))\<lparr>mSessionSocket := - 1\<rparr>))
            else Inr d1))"

text \<open>
  Daemon::TearDown, as far as the descriptors go. \<open>init_managed\<close> is the Android build in
  which the listening socket belongs to \<open>init\<close> and is left alone.
\<close>

definition TearDown :: "bool \<Rightarrow> daemon \<Rightarrow> daemon" where
  "TearDown init_managed d =
     (let d1 = (if mSessionSocket d \<noteq> - 1
                then (sys_close d (mSessionSocket d))\<lparr>mSessionSocket := - 1\<rparr> else d)
      in if init_managed then d1
         else if mListenSocket d1 \<noteq> - 1
         then (sys_close d1 (mListenSocket d1))\<lparr>mListenSocket := - 1\<rparr>
         else d1)"

text \<open>
  The states the daemon can be in between two of its operations: it starts without a
  session; from there it runs poll ticks, outputs and tear-downs. A tick is one in which
  \<open>accept\<close> answers -1 or a descriptor that is not open already.
\<close>

inductive daemon_reachable :: "nat \<Rightarrow> daemon \<Rightarrow> bool" for maxLine :: nat where
  start: "mSessionSocket d = - 1 \<Longrightarrow> live d = {} \<Longrightarrow> daemon_reachable maxLine d"
| tick: "daemon_reachable maxLine d \<Longrightarrow> accept_rval env \<notin> live d \<Longrightarrow>
         Process maxLine d aContext env = Inr d' \<Longrightarrow> daemon_reachable maxLine d'"
| out: "daemon_reachable maxLine d \<Longrightarrow>
           daemon_reachable maxLine (fst (OutputFormatV maxLine d text send_rval))"
| teardown: "daemon_reachable maxLine d \<Longrightarrow> daemon_reachable maxLine (TearDown init_managed d)"

text \<open>The live client connections are exactly the installed session descriptor, if any.\<close>

definition session_inv :: "daemon \<Rightarrow> bool" where
  "session_inv d \<longleftrightarrow> live d = (if mSessionSocket d = - 1 then {} else {mSessionSocket d})"

definition daemon_listening :: daemon where
  "daemon_listening = \<lparr>mListenSocket = 3, mSessionSocket = - 1, live = {}, sys = []\<rparr>"

definition daemon_connected :: daemon where
  "daemon_connected =
     \<lparr>mListenSocket = 3, mSessionSocket = 5, live = {5}, sys = [SysAccept 5]\<rparr>"

section \<open>Properties\<close>

subsection \<open>Auxiliary facts\<close>

declare eui64_digits.simps [simp del] eui64_bytes.simps [simp del]

lemma sint_word_of_int_8:
  "- 128 \<le> k \<Longrightarrow> k < 128 \<Longrightarrow> sint (word_of_int k :: 8 word) = k"
  by (simp add: sint_sbintrunc' signed_take_bit_int_eq_self)

lemma sint_push_bit_8:
  assumes "- 64 \<le> k" "k < 64"
  shows "sint (push_bit 1 (word_of_int k :: 8 word)) = 2 * k"
proof -
  have "push_bit 1 (word_of_int k :: 8 word) = word_of_int (2 * k)"
    by (simp add: push_bit_eq_mult)
  then have "sint (push_bit 1 (word_of_int k :: 8 word)) = sint (word_of_int (2 * k) :: 8 word)"
    by (rule arg_cong)
  also have "\<dots> = 2 * k"
    by (rule sint_word_of_int_8) (use assms in linarith)+
  finally show ?thesis .
qed

lemma c_div_double: "c_div (2 * k) 2 = k"
  by (cases "k < 0"; cases "k = 0") (auto simp: c_div_def sgn_if)

lemmas atoi_eval = atoi_u8_def atoi_i8_def atoi_def isspace_def isdigit_def

lemma map_atoi_u8_args:
  assumes "length aArgs = 12"
  shows "map (\<lambda>idx. atoi_u8 (aArgs ! idx)) [0..<12] = map atoi_u8 aArgs"
proof -
  have "map (\<lambda>idx. atoi_u8 (aArgs ! idx)) [0..<length aArgs] =
        map atoi_u8 (map ((!) aArgs) [0..<length aArgs])"
    by simp
  also have "\<dots> = map atoi_u8 aArgs"
    by (simp only: map_nth)
  finally show ?thesis using assms by simp
qed

lemma foldl_cli_out:
  "foldl (\<lambda>v idx. v\<lparr>cli_out := cli_out v @ [(fmt, [f idx])]\<rparr>) w xs =
     w\<lparr>cli_out := cli_out w @ map (\<lambda>idx. (fmt, [f idx])) xs\<rparr>"
  by (induction xs arbitrary: w) simp_all

lemma MfgCommands_switch_12_args:
  assumes "length aArgs = 12"
  shows "fst (MfgCommands_switch R w cmdId aArgs) = w"
    and "snd (MfgCommands_switch R w cmdId aArgs) \<noteq> OT_ERROR_NONE"
  using assms
  by (simp_all add: MfgCommands_switch_def ProcessMfgGetInt8_def ProcessMfgSetInt8_def)

lemma MfgCommands_switch_default:
  assumes "cmdId \<notin> set mfg_case_labels"
  shows "MfgCommands_switch R w cmdId aArgs = (w, OT_ERROR_NOT_IMPLEMENTED)"
  using assms by (simp add: MfgCommands_switch_def mfg_case_labels_def)

lemma handle_errors_raw:
  assumes "error \<noteq> OT_ERROR_NONE" "length aArgs = 12"
    and "plat_MfgCommand R (plat w) (map atoi_u8 aArgs) = (p, resp, n)"
  shows "MfgCommands_handle_errors R w error aArgs =
     (w\<lparr>plat := p,
        calls := calls w @ [PlatRadioMfgCommand (map atoi_u8 aArgs)],
        cli_out := cli_out w @ map (\<lambda>idx. (''%d '', [uint (resp ! idx)])) [0..<unat n]
                     @ [(CRLF, [])]\<rparr>, OT_ERROR_NONE)"
  using assms
  by (simp add: MfgCommands_handle_errors_def map_atoi_u8_args otPlatRadioMfgCommand_def
      foldl_cli_out otCliOutputFormat_def Let_def)

lemma ProcessMfgCommands_enabled_12:
  assumes "mfgEnable w = 1" "length aArgs = 12"
  shows "ProcessMfgCommands R w aArgs =
     MfgCommands_handle_errors R w (snd (MfgCommands_switch R w (atoi_u8 (aArgs ! 0)) aArgs)) aArgs"
  using assms MfgCommands_switch_12_args(1)[OF assms(2), of R w "atoi_u8 (aArgs ! 0)"]
  by (cases "MfgCommands_switch R w (atoi_u8 (aArgs ! 0)) aArgs")
     (simp add: ProcessMfgCommands_def)

lemma handle_errors_calls:
  "calls (fst (MfgCommands_handle_errors R w1 error aArgs)) =
     (if error \<noteq> OT_ERROR_NONE \<and> length aArgs = 12
      then calls w1 @ [PlatRadioMfgCommand (map atoi_u8 aArgs)] else calls w1)"
  by (auto simp add: MfgCommands_handle_errors_def map_atoi_u8_args otPlatRadioMfgCommand_def
      foldl_cli_out otCliOutputFormat_def Let_def split: prod.splits)

lemma session_inv_OutputFormatV:
  "session_inv d \<Longrightarrow> session_inv (fst (OutputFormatV maxLine d text send_rval))"
  by (auto simp add: session_inv_def OutputFormatV_def sys_close_def Let_def split: if_splits)

lemma session_inv_cli_outputs:
  "session_inv d \<Longrightarrow>
   session_inv (foldl (\<lambda>v (text, send_rval). fst (OutputFormatV maxLine v text send_rval)) d outs)"
proof (induction outs arbitrary: d)
  case Nil
  then show ?case by simp
next
  case (Cons x outs)
  then show ?case
    by (cases x) (simp add: session_inv_OutputFormatV)
qed

lemma session_inv_InitializeSessionSocket:
  "session_inv d \<Longrightarrow> new \<notin> live d \<Longrightarrow>
   session_inv (InitializeSessionSocket d new getfd setfd)"
  by (auto simp add: session_inv_def InitializeSessionSocket_def sys_accept_def sys_close_def
      Let_def split: if_splits)

lemma session_inv_close_session:
  "session_inv d \<Longrightarrow> session_inv ((sys_close d (mSessionSocket d))\<lparr>mSessionSocket := - 1\<rparr>)"
  by (auto simp add: session_inv_def sys_close_def split: if_splits)

lemma Process_cases:
  assumes "Process maxLine d aContext env = Inr d'"
  defines "d1 \<equiv> (if mListenSocket d \<in> mReadFdSet aContext
     then InitializeSessionSocket d (accept_rval env) (getfd_rval env) (setfd_rval env) else d)"
  shows "d' = d \<or> d' = d1 \<or> d' = (sys_close d1 (mSessionSocket d1))\<lparr>mSessionSocket := - 1\<rparr> \<or>
     d' = foldl (\<lambda>v (text, send_rval). fst (OutputFormatV maxLine v text send_rval))
            d1 (cli_outputs env)"
proof (cases "mListenSocket d = - 1")
  case True
  then show ?thesis using assms(1) by (simp add: Process_def)
next
  case False
  then have "Process maxLine d aContext env =
    (if mListenSocket d \<in> mErrorFdSet aContext then Inl OT_EXIT_FAILURE
     else if mSessionSocket d1 = - 1 then Inr d1
     else if mSessionSocket d1 \<in> mErrorFdSet aContext then
       Inr ((sys_close d1 (mSessionSocket d1))\<lparr>mSessionSocket := - 1\<rparr>)
     else if mSessionSocket d1 \<in> mReadFdSet aContext then
       (if read_rval env > 0 then
          Inr (foldl (\<lambda>v (text, send_rval). fst (OutputFormatV maxLine v text send_rval))
                 d1 (cli_outputs env))
        else Inr ((sys_close d1 (mSessionSocket d1))\<lparr>mSessionSocket := - 1\<rparr>))
     else Inr d1)"
    unfolding Process_def d1_def Let_def by (simp only: if_False)
  with assms(1) show ?thesis
    by (simp split: if_splits)
qed

lemma session_inv_Process:
  assumes "session_inv d" "accept_rval env \<notin> live d" "Process maxLine d aContext env = Inr d'"
  shows "session_inv d'"
proof -
  define d1 where "d1 = (if mListenSocket d \<in> mReadFdSet aContext
     then InitializeSessionSocket d (accept_rval env) (getfd_rval env) (setfd_rval env) else d)"
  have i1: "session_inv d1"
    using assms(1,2) by (simp add: d1_def session_inv_InitializeSessionSocket)
  from Process_cases[OF assms(3)]
  consider "d' = d" | "d' = d1"
    | "d' = (sys_close d1 (mSessionSocket d1))\<lparr>mSessionSocket := - 1\<rparr>"
    | "d' = foldl (\<lambda>v (text, send_rval). fst (OutputFormatV maxLine v text send_rval))
            d1 (cli_outputs env)"
    unfolding d1_def by blast
  then show ?thesis
  proof cases
    case 1
    then show ?thesis using assms(1) by simp
  next
    case 2
    then show ?thesis using i1 by simp
  next
    case 3
    then show ?thesis using session_inv_close_session[OF i1] by simp
  next
    case 4
    then show ?thesis using session_inv_cli_outputs[OF i1] by simp
  qed
qed

lemma session_inv_TearDown:
  "session_inv d \<Longrightarrow> session_inv (TearDown init_managed d)"
  by (auto simp add: session_inv_def TearDown_def sys_close_def Let_def split: if_splits)

lemma daemon_reachable_session_inv:
  "daemon_reachable maxLine d \<Longrightarrow> session_inv d"
proof (induction rule: daemon_reachable.induct)
  case (start d)
  then show ?case by (simp add: session_inv_def)
next
  case (tick d env aContext d')
  then show ?case by (blast intro: session_inv_Process)
next
  case (out d msg send_rval)
  then show ?case by (simp add: session_inv_OutputFormatV)
next
  case (teardown d init_managed)
  then show ?case by (simp add: session_inv_TearDown)
qed

lemma uint_of_char_8: "uint (of_char c :: 8 word) = of_char c"
proof -
  have "(of_char c :: 8 word) = word_of_int (of_char c)"
    by (simp add: of_int_of_char)
  then have "uint (of_char c :: 8 word) = uint (word_of_int (of_char c) :: 8 word)"
    by (rule arg_cong)
  also have "\<dots> = (of_char c :: int) mod 256"
    by (simp only: uint_word_of_int) simp
  finally show ?thesis by simp
qed

lemma eui64_digits_pair:
  assumes "eui64_digits i 0 (c1 # c2 # rest) addr = (e, hex', addr')"
  shows "(e = OT_ERROR_NONE \<longleftrightarrow> isxdigit c1 \<and> isxdigit c2) \<and>
         (e = OT_ERROR_NONE \<longrightarrow> hex' = rest) \<and>
         (e \<noteq> OT_ERROR_NONE \<longrightarrow> e = OT_ERROR_FAILED)"
  using assms
  by (auto simp add: eui64_digits.simps isxdigit_def xdigit_val_def cstr_at_def Let_def
      word_le_def uint_of_char_8 split: if_splits)

lemma eui64_bytes_all_xdigits:
  "i \<le> 8 \<Longrightarrow> length hex = 2 * (8 - i) \<Longrightarrow>
   fst (eui64_bytes i OT_ERROR_NONE hex addr) =
     (if \<forall>c \<in> set hex. isxdigit c then OT_ERROR_NONE else OT_ERROR_FAILED)"
proof (induction "8 - i" arbitrary: i hex addr)
  case 0
  then show ?case by (simp add: eui64_bytes.simps)
next
  case (Suc n)
  then have i: "i < 8" and n: "n = 8 - (i + 1)" by simp_all
  from Suc.prems Suc.hyps(2) obtain c1 c2 rest where hex: "hex = c1 # c2 # rest"
    and rest: "length rest = 2 * (8 - (i + 1))"
    by (cases hex; cases "tl hex") auto
  obtain e hex' addr' where d: "eui64_digits i 0 (c1 # c2 # rest) (addr[i := 0]) = (e, hex', addr')"
    by (cases "eui64_digits i 0 (c1 # c2 # rest) (addr[i := 0])") auto
  note p = eui64_digits_pair[OF d]
  have step: "eui64_bytes i OT_ERROR_NONE hex addr = eui64_bytes (i + 1) e hex' addr'"
    using i d hex by (subst eui64_bytes.simps) simp
  show ?case
  proof (cases "e = OT_ERROR_NONE")
    case True
    with p have "hex' = rest" "isxdigit c1" "isxdigit c2" by simp_all
    with True step Suc.hyps(1)[OF n _ rest, of addr'] i hex show ?thesis
      by simp
  next
    case False
    with p have "e = OT_ERROR_FAILED" "\<not> (isxdigit c1 \<and> isxdigit c2)" by simp_all
    with step hex show ?thesis
      by (auto simp add: eui64_bytes.simps)
  qed
qed

lemma of_char_8_eq_iff: "(of_char a :: 8 word) = of_char b \<longleftrightarrow> a = b"
proof
  assume "(of_char a :: 8 word) = of_char b"
  then have "uint (of_char a :: 8 word) = uint (of_char b :: 8 word)"
    by (rule arg_cong)
  then have "(of_char a :: int) = of_char b"
    by (simp only: uint_of_char_8)
  then show "a = b" by simp
qed simp

lemma cstr_at_eq_x:
  "1 < length s \<Longrightarrow> cstr_at s 1 = of_char CHR ''x'' \<longleftrightarrow> s ! 1 = CHR ''x''"
  unfolding cstr_at_def by (simp only: if_True of_char_8_eq_iff)

text \<open>
  What ProcessSetEui64 does on every input: the platform is called exactly when there is
  one argument of 18 characters whose second character is \<open>x\<close> and whose last sixteen
  are hexadecimal digits; a digit run with another character gives OT_ERROR_FAILED and
  everything else OT_ERROR_INVALID_ARGS, both without a platform call.
\<close>

lemma ProcessSetEui64_outcome:
  "ProcessSetEui64 R w aArgs =
     (if length aArgs = 1 \<and> length (aArgs ! 0) = 18 \<and> aArgs ! 0 ! 1 = CHR ''x'' then
        (if \<forall>c \<in> set (drop 2 (aArgs ! 0)). isxdigit c
         then otPlatRadioSetIeeeEui64 R w
                (snd (eui64_bytes 0 OT_ERROR_NONE (drop 2 (aArgs ! 0)) [0, 0, 0, 0, 0, 0, 0, 0]))
         else (w, OT_ERROR_FAILED))
      else (w, OT_ERROR_INVALID_ARGS))"
proof (cases "length aArgs = 1 \<and> length (aArgs ! 0) = 18")
  case False
  then show ?thesis
    by (auto simp add: ProcessSetEui64_def strlen_def Let_def)
next
  case True
  then have x: "cstr_at (aArgs ! 0) 1 = of_char CHR ''x'' \<longleftrightarrow> aArgs ! 0 ! 1 = CHR ''x''"
    by (intro cstr_at_eq_x) simp
  from True have len: "length (drop 2 (aArgs ! 0)) = 2 * (8 - 0)" by simp
  note b = eui64_bytes_all_xdigits[OF _ len, of "[0, 0, 0, 0, 0, 0, 0, 0]", simplified]
  show ?thesis
    using True b unfolding ProcessSetEui64_def strlen_def Let_def x
    by (cases "eui64_bytes 0 OT_ERROR_NONE (drop 2 (aArgs ! 0)) [0, 0, 0, 0, 0, 0, 0, 0]")
       (simp split: if_splits)
qed

text \<open>ProcessIRConfig with one argument and with none.\<close>

lemma ProcessIRConfig_one_arg:
  "ProcessIRConfig R w [a] =
     (if atoi_u8 a < 4
      then (w\<lparr>plat := plat_SetIRConfig R (plat w) (atoi_u8 a),
              calls := calls w @ [PlatRadioSetIRConfig (atoi_u8 a)]\<rparr>, OT_ERROR_NONE)
      else (w, OT_ERROR_INVALID_ARGS))"
  by (simp add: ProcessIRConfig_def otPlatRadioSetIRConfig_def Let_def)

lemma ProcessIRConfig_no_arg:
  "snd (ProcessIRConfig R w []) = OT_ERROR_NONE \<and>
   calls (fst (ProcessIRConfig R w [])) = calls w @ [PlatRadioGetIRConfig]"
  by (simp add: ProcessIRConfig_def otPlatRadioGetIRConfig_def otCliOutputFormat_def
      split: prod.splits)

lemma InitializeSessionSocket_installs:
  assumes "session_inv d" "new \<noteq> - 1" "new \<notin> live d" "getfd \<noteq> - 1" "setfd \<noteq> - 1"
  shows "InitializeSessionSocket d new getfd setfd =
          d\<lparr>mSessionSocket := new, live := {new},
            sys := sys d @ SysAccept new #
                     (if mSessionSocket d = - 1 then [] else [SysClose (mSessionSocket d)])\<rparr>"
proof (cases "mSessionSocket d = - 1")
  case True
  with assms show ?thesis
    by (simp add: session_inv_def InitializeSessionSocket_def sys_accept_def sys_close_def Let_def)
next
  case False
  with assms have "insert new (live d) - {mSessionSocket d} = {new}"
    by (auto simp add: session_inv_def)
  with False assms show ?thesis
    by (simp add: InitializeSessionSocket_def sys_accept_def sys_close_def Let_def)
qed

lemma Process_replaces:
  assumes inv: "session_inv d"
    and l: "mListenSocket d \<noteq> - 1" "mListenSocket d \<notin> mErrorFdSet aContext"
      "mListenSocket d \<in> mReadFdSet aContext"
    and a: "accept_rval env \<noteq> - 1" "accept_rval env \<notin> live d"
      "getfd_rval env \<noteq> - 1" "setfd_rval env \<noteq> - 1"
  shows "Process maxLine d aContext env =
     Inr (let new = accept_rval env;
              d1 = d\<lparr>mSessionSocket := new, live := {new},
                     sys := sys d @ SysAccept new #
                       (if mSessionSocket d = - 1 then [] else [SysClose (mSessionSocket d)])\<rparr>;
              closed = d1\<lparr>mSessionSocket := - 1, live := {}, sys := sys d1 @ [SysClose new]\<rparr>
          in if new \<in> mErrorFdSet aContext then closed
             else if new \<in> mReadFdSet aContext then
               (if read_rval env > 0
                then foldl (\<lambda>v (text, send_rval). fst (OutputFormatV maxLine v text send_rval))
                       d1 (cli_outputs env)
                else closed)
             else d1)"
  using l a(1)
  unfolding Process_def InitializeSessionSocket_installs[OF inv a]
  by (simp add: Let_def sys_close_def)

lemma Process_serves:
  assumes inv: "session_inv d"
    and l: "mListenSocket d \<noteq> - 1" "mListenSocket d \<notin> mErrorFdSet aContext"
      "mListenSocket d \<notin> mReadFdSet aContext"
    and s: "mSessionSocket d \<noteq> - 1"
  shows "Process maxLine d aContext env =
     Inr (let closed = d\<lparr>mSessionSocket := - 1, live := {},
                         sys := sys d @ [SysClose (mSessionSocket d)]\<rparr>
          in if mSessionSocket d \<in> mErrorFdSet aContext then closed
             else if mSessionSocket d \<in> mReadFdSet aContext then
               (if read_rval env > 0
                then foldl (\<lambda>v (text, send_rval). fst (OutputFormatV maxLine v text send_rval))
                       d (cli_outputs env)
                else closed)
             else d)"
  using l s inv
  by (simp add: Process_def Let_def sys_close_def session_inv_def)

text \<open>
  What the range checks of the manufacturing commands do reject: a value that is out of
  range after the 8-bit cast of \<open>atoi\<close>. Then the world is left as it was.
\<close>

lemma mfg_cast_out_of_range_no_transport:
  "(length aArgs = 2 \<and>
      \<not> (sint min_val \<le> sint (atoi_i8 (aArgs ! 1)) \<and> sint (atoi_i8 (aArgs ! 1)) \<le> sint max_val)
      \<longrightarrow> ProcessMfgSetInt8 R w cmdId aArgs min_val max_val = (w, OT_ERROR_INVALID_ARGS)) \<and>
   (mfgEnable w = 1 \<and> length aArgs = 3 \<and> atoi_u8 (aArgs ! 0) = MFG_CMD_BURST_TX \<and>
      \<not> (atoi_u8 (aArgs ! 1) < 8 \<and> atoi_u8 (aArgs ! 2) > 5)
      \<longrightarrow> ProcessMfgCommands R w aArgs = (w, OT_ERROR_INVALID_ARGS)) \<and>
   (mfgEnable w = 1 \<and> length aArgs = 3 \<and> atoi_u8 (aArgs ! 0) = MFG_CMD_CONTINOUS_CCA_TEST \<and>
      \<not> (atoi_u8 (aArgs ! 1) < 2 \<and> atoi_u8 (aArgs ! 2) < 4)
      \<longrightarrow> ProcessMfgCommands R w aArgs = (w, OT_ERROR_INVALID_ARGS)) \<and>
   (mfgEnable w = 1 \<and> length aArgs = 4 \<and> atoi_u8 (aArgs ! 0) = MFG_CMD_PHY_TX_TEST_PSDU \<and>
      \<not> (atoi_u8 (aArgs ! 1) < 8 \<and> atoi_u8 (aArgs ! 2) > 5 \<and> atoi_u8 (aArgs ! 3) < 2)
      \<longrightarrow> ProcessMfgCommands R w aArgs = (w, OT_ERROR_INVALID_ARGS))"
proof (intro conjI impI)
  assume "length aArgs = 2 \<and>
      \<not> (sint min_val \<le> sint (atoi_i8 (aArgs ! 1)) \<and> sint (atoi_i8 (aArgs ! 1)) \<le> sint max_val)"
  then show "ProcessMfgSetInt8 R w cmdId aArgs min_val max_val = (w, OT_ERROR_INVALID_ARGS)"
    by (auto simp add: ProcessMfgSetInt8_def Let_def)
next
  assume "mfgEnable w = 1 \<and> length aArgs = 3 \<and> atoi_u8 (aArgs ! 0) = MFG_CMD_BURST_TX \<and>
      \<not> (atoi_u8 (aArgs ! 1) < 8 \<and> atoi_u8 (aArgs ! 2) > 5)"
  then show "ProcessMfgCommands R w aArgs = (w, OT_ERROR_INVALID_ARGS)"
    by (auto simp add: ProcessMfgCommands_def MfgCommands_switch_def
        MfgCommands_handle_errors_def Let_def)
next
  assume "mfgEnable w = 1 \<and> length aArgs = 3 \<and> atoi_u8 (aArgs ! 0) = MFG_CMD_CONTINOUS_CCA_TEST \<and>
      \<not> (atoi_u8 (aArgs ! 1) < 2 \<and> atoi_u8 (aArgs ! 2) < 4)"
  then show "ProcessMfgCommands R w aArgs = (w, OT_ERROR_INVALID_ARGS)"
    by (auto simp add: ProcessMfgCommands_def MfgCommands_switch_def
        MfgCommands_handle_errors_def payload_init_def Let_def)
next
  assume "mfgEnable w = 1 \<and> length aArgs = 4 \<and> atoi_u8 (aArgs ! 0) = MFG_CMD_PHY_TX_TEST_PSDU \<and>
      \<not> (atoi_u8 (aArgs ! 1) < 8 \<and> atoi_u8 (aArgs ! 2) > 5 \<and> atoi_u8 (aArgs ! 3) < 2)"
  then show "ProcessMfgCommands R w aArgs = (w, OT_ERROR_INVALID_ARGS)"
    by (auto simp add: ProcessMfgCommands_def MfgCommands_switch_def
        MfgCommands_handle_errors_def Let_def)
qed

subsection \<open>The claims\<close>

text \<open>
  C1. ProcessSetEui64 is meant to accept exactly one argument of the form \<open>0x\<close> plus 16
  hexadecimal digits and to reject everything else without a platform call. The code
  tests \<open>hex[1] == 'x'\<close> and the length only; the first character is never looked at.
  Evaluated at \<open>Zx0123456789abcdEF\<close>, the handler calls otPlatRadioSetIeeeEui64 with
  the eight decoded bytes.
\<close>

theorem ProcessSetEui64_accepts_any_first_char:
  "calls (fst (ProcessSetEui64 R w [''Zx0123456789abcdEF''])) =
     calls w @ [PlatRadioSetIeeeEui64 [0x01, 0x23, 0x45, 0x67, 0x89, 0xab, 0xcd, 0xef]]"
  by (simp add: ProcessSetEui64_def eui64_bytes.simps eui64_digits.simps cstr_at_def strlen_def
      otPlatRadioSetIeeeEui64_def split: prod.splits)

text \<open>
  C2. For every integer \<open>v\<close> from -20 to 22, setting the TX power to \<open>v\<close> and reading it
  back prints \<open>v\<close>. ProcessMfgSetInt8 puts \<open>(uint8_t)v << 1\<close> into byte 4 of the SET
  frame; ProcessMfgGetInt8 prints \<open>((int8_t)payload[4]) / 2\<close>; against any driver that
  acknowledges the SET and reports the stored byte on GET the two compose to the
  identity, for negative and odd values as well.
\<close>

theorem TxPower_set_get_roundtrip:
  assumes range: "- 20 \<le> v" "v \<le> 22"
    and arg: "atoi a = v"
    and set_frame: "set_frame = [11, 15, 1, 0, push_bit 1 (word_of_int v), 0, 0, 0, 0, 0, 0, 0]"
    and get_frame: "get_frame = [11, 15, 0, 0, 0, 0, 0, 0, 0, 0, 0, 0]"
    and set_ack: "plat_MfgCommand R (plat w) set_frame = (p_set, ack, n_set)" "n_set \<ge> 4" "ack ! 3 = 0"
    and get_resp: "plat_MfgCommand R p_set get_frame = (p_get, resp, n_get)" "n_get \<ge> 5" "resp ! 3 = 0"
    and stored: "resp ! 4 = set_frame ! 4"
    and w_set: "w_set = w\<lparr>plat := p_set, calls := calls w @ [PlatRadioMfgCommand set_frame]\<rparr>"
  shows "ProcessMfgSetInt8 R w MFG_CMD_GET_SET_TXPOWER [a0, a] (- 20) 22 = (w_set, OT_ERROR_NONE) \<and>
         ProcessMfgGetInt8 R w_set MFG_CMD_GET_SET_TXPOWER 1 =
           (w_set\<lparr>plat := p_get, calls := calls w_set @ [PlatRadioMfgCommand get_frame],
               cli_out := cli_out w_set @ [(''%d'' @ CRLF, [v])]\<rparr>, OT_ERROR_NONE) \<and>
         c_div (sint (push_bit 1 (word_of_int v :: int8_t))) 2 = v"
proof -
  have sv: "sint (atoi_i8 a) = v"
    using range arg by (simp add: atoi_i8_def sint_word_of_int_8)
  have dec: "c_div (sint (push_bit 1 (word_of_int v :: int8_t))) 2 = v"
  proof -
    have "sint (push_bit 1 (word_of_int v :: int8_t)) = 2 * v"
      by (rule sint_push_bit_8) (use range in linarith)+
    then show ?thesis by (simp only: c_div_double)
  qed
  have s: "ProcessMfgSetInt8 R w MFG_CMD_GET_SET_TXPOWER [a0, a] (- 20) 22 = (w_set, OT_ERROR_NONE)"
    using range sv arg set_ack set_frame w_set
    by (simp add: ProcessMfgSetInt8_def Let_def payload_init_def otPlatRadioMfgCommand_def
        atoi_i8_def)
  have g: "ProcessMfgGetInt8 R w_set MFG_CMD_GET_SET_TXPOWER 1 =
           (w_set\<lparr>plat := p_get, calls := calls w_set @ [PlatRadioMfgCommand get_frame],
               cli_out := cli_out w_set @ [(''%d'' @ CRLF, [v])]\<rparr>, OT_ERROR_NONE)"
    using get_resp get_frame stored set_frame dec w_set
    by (simp add: ProcessMfgGetInt8_def payload_init_def otPlatRadioMfgCommand_def
        otCliOutputFormat_def)
  from s g dec show ?thesis by simp
qed

theorem TxPower_set_get_roundtrip_witness:
  "atoi ''-7'' = - 7 \<and>
   ProcessMfgSetInt8 test_radio world_enabled MFG_CMD_GET_SET_TXPOWER [''16'', ''-7''] (- 20) 22 =
     (world_enabled\<lparr>plat := 0xF2,
        calls := [PlatRadioMfgCommand [11, 15, 1, 0, 0xF2, 0, 0, 0, 0, 0, 0, 0]]\<rparr>,
      OT_ERROR_NONE) \<and>
   ProcessMfgGetInt8 test_radio
     (world_enabled\<lparr>plat := 0xF2,
        calls := [PlatRadioMfgCommand [11, 15, 1, 0, 0xF2, 0, 0, 0, 0, 0, 0, 0]]\<rparr>)
     MFG_CMD_GET_SET_TXPOWER 1 =
     (world_enabled\<lparr>plat := 0xF2,
        calls := [PlatRadioMfgCommand [11, 15, 1, 0, 0xF2, 0, 0, 0, 0, 0, 0, 0],
                  PlatRadioMfgCommand [11, 15, 0, 0, 0, 0, 0, 0, 0, 0, 0, 0]],
        cli_out := [(''%d'' @ CRLF, [- 7])]\<rparr>, OT_ERROR_NONE)"
  using TxPower_set_get_roundtrip[where v = "- 7" and a = "''-7''" and a0 = "''16''"
      and R = test_radio and w = world_enabled
      and set_frame = "[11, 15, 1, 0, 0xF2, 0, 0, 0, 0, 0, 0, 0]"
      and get_frame = "[11, 15, 0, 0, 0, 0, 0, 0, 0, 0, 0, 0]"
      and p_set = "0xF2" and ack = "[11, 15, 1, 0, 0xF2, 0, 0, 0, 0, 0, 0, 0]" and n_set = 4
      and p_get = "0xF2" and resp = "[11, 15, 0, 0, 0xF2, 0, 0, 0, 0, 0, 0, 0]" and n_get = 5
      and w_set = "world_enabled\<lparr>plat := 0xF2,
        calls := [PlatRadioMfgCommand [11, 15, 1, 0, 0xF2, 0, 0, 0, 0, 0, 0, 0]]\<rparr>"]
  by (simp add: world_enabled_def test_radio_def atoi_eval)



text \<open>
  C4. A set-int8 call with two arguments whose value is outside \<open>[min, max]\<close>, and a
  burst-TX, continuous-CCA-test or PHY-TX-test-PSDU command with a field outside its
  range, are to return invalid-arguments without a transport call. The code compares
  after the cast to \<open>int8_t\<close> or \<open>uint8_t\<close>, so a typed value that wraps into the range
  passes: \<open>mfgcmd 48 200\<close> (CCA threshold, range -110..0) sends a SET frame with byte
  200, and \<open>mfgcmd 33 256 9\<close> (burst-TX, mode below 8) sends a frame with mode 0 and
  returns OT_ERROR_NONE.
\<close>

theorem mfg_range_check_after_cast:
  "calls (fst (ProcessMfgSetInt8 R w MFG_CMD_GET_SET_CCA_THRESHOLD [''48'', ''200''] (- 110) 0)) =
     calls w @ [PlatRadioMfgCommand [11, 47, 1, 0, 200, 0, 0, 0, 0, 0, 0, 0]] \<and>
   calls (fst (ProcessMfgCommands R (w\<lparr>mfgEnable := 1\<rparr>) [''33'', ''256'', ''9''])) =
     calls w @ [PlatRadioMfgCommand [11, 33, 0, 0, 0, 9, 0, 0, 0, 0, 0, 0]] \<and>
   snd (ProcessMfgCommands R (w\<lparr>mfgEnable := 1\<rparr>) [''33'', ''256'', ''9'']) = OT_ERROR_NONE"
  by (auto simp add: ProcessMfgSetInt8_def ProcessMfgCommands_def MfgCommands_switch_def
      MfgCommands_handle_errors_def otPlatRadioMfgCommand_def payload_init_def atoi_eval Let_def
      split: prod.splits)

text \<open>
  C5. Once the frame has been sent, ProcessMfgGetInt8 returns OT_ERROR_NONE and prints the
  signed byte 4 of the response (halved, towards zero, for the TX-power opcode only)
  exactly when \<open>outputLen\<close> is at least 5 and byte 3 of the response is 0; otherwise it
  returns OT_ERROR_FAILED and prints nothing. ProcessMfgSetInt8, for a value in range,
  returns OT_ERROR_NONE exactly when \<open>outputLen\<close> is at least 4 and byte 3 is 0, and
  OT_ERROR_FAILED otherwise.
\<close>

theorem mfg_response_check:
  "(plat_MfgCommand R (plat w) (payload_init[1 := cmdId, 2 := MFG_CMD_ACTION_GET]) = (p, resp, n)
      \<longrightarrow> ProcessMfgGetInt8 R w cmdId 1 =
         (if n \<ge> 5 \<and> resp ! 3 = 0 then
            (w\<lparr>plat := p,
               calls := calls w @
                 [PlatRadioMfgCommand (payload_init[1 := cmdId, 2 := MFG_CMD_ACTION_GET])],
               cli_out := cli_out w @
                 [(''%d'' @ CRLF,
                   [if cmdId = MFG_CMD_GET_SET_TXPOWER then c_div (sint (resp ! 4)) 2
                    else sint (resp ! 4)])]\<rparr>,
             OT_ERROR_NONE)
          else
            (w\<lparr>plat := p,
               calls := calls w @
                 [PlatRadioMfgCommand (payload_init[1 := cmdId, 2 := MFG_CMD_ACTION_GET])]\<rparr>,
             OT_ERROR_FAILED))) \<and>
   (length aArgs = 2 \<and>
    sint min_val \<le> sint (atoi_i8 (aArgs ! 1)) \<and> sint (atoi_i8 (aArgs ! 1)) \<le> sint max_val \<and>
    frame = payload_init[1 := cmdId, 2 := MFG_CMD_ACTION_SET,
              4 := (if cmdId = MFG_CMD_GET_SET_TXPOWER then push_bit 1 (atoi_i8 (aArgs ! 1))
                    else atoi_i8 (aArgs ! 1))] \<and>
    plat_MfgCommand R (plat w) frame = (p', ack, m)
      \<longrightarrow> ProcessMfgSetInt8 R w cmdId aArgs min_val max_val =
         (w\<lparr>plat := p', calls := calls w @ [PlatRadioMfgCommand frame]\<rparr>,
          if m \<ge> 4 \<and> ack ! 3 = 0 then OT_ERROR_NONE else OT_ERROR_FAILED))"
  by (auto simp add: ProcessMfgGetInt8_def ProcessMfgSetInt8_def otPlatRadioMfgCommand_def
      otCliOutputFormat_def Let_def)

theorem mfg_response_check_witness:
  "ProcessMfgGetInt8 test_radio (world_enabled\<lparr>plat := 0xD8\<rparr>) MFG_CMD_GET_SET_TXPOWER 1 =
     (world_enabled\<lparr>plat := 0xD8,
        calls := [PlatRadioMfgCommand [11, 15, 0, 0, 0, 0, 0, 0, 0, 0, 0, 0]],
        cli_out := [(''%d'' @ CRLF, [- 20])]\<rparr>, OT_ERROR_NONE) \<and>
   ProcessMfgSetInt8 test_radio world_enabled MFG_CMD_GET_SET_CHANNEL [''12'', ''26''] 11 26 =
     (world_enabled\<lparr>plat := 26,
        calls := [PlatRadioMfgCommand [11, 11, 1, 0, 26, 0, 0, 0, 0, 0, 0, 0]]\<rparr>, OT_ERROR_NONE) \<and>
   ProcessMfgGetInt8 nack_radio world_enabled MFG_CMD_GET_SET_CHANNEL 1 =
     (world_enabled\<lparr>calls := [PlatRadioMfgCommand [11, 11, 0, 0, 0, 0, 0, 0, 0, 0, 0, 0]]\<rparr>,
      OT_ERROR_FAILED)"
  using
    mfg_response_check[where R = test_radio and w = "world_enabled\<lparr>plat := 0xD8\<rparr>"
      and cmdId = MFG_CMD_GET_SET_TXPOWER and p = "0xD8"
      and resp = "[11, 15, 0, 0, 0xD8, 0, 0, 0, 0, 0, 0, 0]" and n = 5]
    mfg_response_check[where R = test_radio and w = world_enabled
      and cmdId = MFG_CMD_GET_SET_CHANNEL and aArgs = "[''12'', ''26'']"
      and min_val = 11 and max_val = 26
      and frame = "[11, 11, 1, 0, 26, 0, 0, 0, 0, 0, 0, 0]"
      and p' = 26 and ack = "[11, 11, 1, 0, 26, 0, 0, 0, 0, 0, 0, 0]" and m = 4]
    mfg_response_check[where R = nack_radio and w = world_enabled
      and cmdId = MFG_CMD_GET_SET_CHANNEL and p = 0
      and resp = "[11, 11, 0, 1, 0, 0, 0, 0, 0, 0, 0, 0]" and n = 5]
  by (simp add: world_enabled_def test_radio_def nack_radio_def payload_init_def atoi_eval
      c_div_def)

text \<open>
  C6. While \<open>mfgEnable\<close> is 1, an opcode without a case label and exactly twelve
  arguments: the switch yields OT_ERROR_NOT_IMPLEMENTED, then the twelve parsed bytes are
  sent as the frame without any range check, the first \<open>outputLen\<close> bytes of the
  response are printed followed by a line break, and the result is OT_ERROR_NONE.
\<close>

theorem ProcessMfgCommands_raw_passthrough:
  assumes "mfgEnable w = 1" "length aArgs = 12"
    and "atoi_u8 (aArgs ! 0) \<notin> set mfg_case_labels"
    and "plat_MfgCommand R (plat w) (map atoi_u8 aArgs) = (p, resp, n)"
  shows "MfgCommands_switch R w (atoi_u8 (aArgs ! 0)) aArgs = (w, OT_ERROR_NOT_IMPLEMENTED) \<and>
     ProcessMfgCommands R w aArgs =
     (w\<lparr>plat := p,
        calls := calls w @ [PlatRadioMfgCommand (map atoi_u8 aArgs)],
        cli_out := cli_out w @ map (\<lambda>idx. (''%d '', [uint (resp ! idx)])) [0..<unat n]
                     @ [(CRLF, [])]\<rparr>, OT_ERROR_NONE)"
proof -
  have sw: "MfgCommands_switch R w (atoi_u8 (aArgs ! 0)) aArgs = (w, OT_ERROR_NOT_IMPLEMENTED)"
    using assms(3) by (rule MfgCommands_switch_default)
  have "ProcessMfgCommands R w aArgs =
        MfgCommands_handle_errors R w OT_ERROR_NOT_IMPLEMENTED aArgs"
    using ProcessMfgCommands_enabled_12[OF assms(1,2), of R] sw by simp
  with sw show ?thesis
    using handle_errors_raw[OF _ assms(2,4), of OT_ERROR_NOT_IMPLEMENTED] by simp
qed

theorem ProcessMfgCommands_raw_passthrough_witness:
  "mfgEnable world_enabled = 1 \<and>
   atoi_u8 ''99'' \<notin> set mfg_case_labels \<and>
   ProcessMfgCommands test_radio world_enabled
     [''99'', ''200'', ''0'', ''7'', ''5'', ''0'', ''0'', ''0'', ''0'', ''0'', ''0'', ''255''] =
     (world_enabled\<lparr>calls := [PlatRadioMfgCommand [99, 200, 0, 7, 5, 0, 0, 0, 0, 0, 0, 255]],
        cli_out := [(''%d '', [99]), (''%d '', [200]), (''%d '', [0]), (''%d '', [0]),
                    (''%d '', [0]), (CRLF, [])]\<rparr>, OT_ERROR_NONE)"
  using ProcessMfgCommands_raw_passthrough[of world_enabled
      "[''99'', ''200'', ''0'', ''7'', ''5'', ''0'', ''0'', ''0'', ''0'', ''0'', ''0'', ''255'']"
      test_radio 0 "[99, 200, 0, 0, 0, 0, 0, 0, 0, 0, 0, 255]" 5]
  by (simp add: world_enabled_def test_radio_def mfg_case_labels_def atoi_eval upt_rec)

text \<open>
  C7. With a single argument, ProcessGetSetTxPowerLimit always calls
  otPlatRadioSetTxPowerLimit with the parsed byte and returns OT_ERROR_NONE; the test
  against 1..44 selects nothing but a log line, so values outside that range are
  forwarded like any other.
\<close>

theorem ProcessGetSetTxPowerLimit_forwards_any_value:
  "ProcessGetSetTxPowerLimit R w [a] =
     (w\<lparr>plat := plat_SetTxPowerLimit R (plat w) (atoi_u8 a),
        calls := calls w @ [PlatRadioSetTxPowerLimit (atoi_u8 a)]\<rparr>, OT_ERROR_NONE)"
  by (simp add: ProcessGetSetTxPowerLimit_def otPlatRadioSetTxPowerLimit_def Let_def)

text \<open>
  C8. ProcessIRConfig is claimed to answer two or more arguments with invalid-arguments.
  Its \<open>else\<close> branch takes every argument count other than one: with two arguments the
  handler calls otPlatRadioGetIRConfig, prints the mode and returns OT_ERROR_NONE.
\<close>

theorem ProcessIRConfig_two_args_gets:
  "snd (ProcessIRConfig R w [a, b]) = OT_ERROR_NONE \<and>
   calls (fst (ProcessIRConfig R w [a, b])) = calls w @ [PlatRadioGetIRConfig] \<and>
   cli_out (fst (ProcessIRConfig R w [a, b])) =
     cli_out w @ [(''%d'' @ CRLF, [uint (snd (plat_GetIRConfig R (plat w)))])]"
  by (simp add: ProcessIRConfig_def otPlatRadioGetIRConfig_def otCliOutputFormat_def
      split: prod.splits)

text \<open>
  C9, as stated: at most one client connection is live at all times. Inside
  InitializeSessionSocket the new connection is accepted while the prior session is still
  open, and the prior one is closed only afterwards: from the reachable state with
  session 5, accepting 6 passes through a state with both 5 and 6 live.
\<close>

theorem session_two_live_inside_replacement:
  "daemon_reachable 384 daemon_connected \<and>
   InitializeSessionSocket daemon_connected 6 0 0 =
     (sys_close (sys_accept daemon_connected 6) 5)\<lparr>mSessionSocket := 6\<rparr> \<and>
   live (sys_accept daemon_connected 6) = {5, 6} \<and>
   card (live (sys_accept daemon_connected 6)) = 2 \<and>
   sys (InitializeSessionSocket daemon_connected 6 0 0) = [SysAccept 5, SysAccept 6, SysClose 5]"
proof -
  have "Process 384 daemon_listening \<lparr>mReadFdSet = {3}, mErrorFdSet = {}\<rparr>
          \<lparr>accept_rval = 5, getfd_rval = 0, setfd_rval = 0, read_rval = 0, cli_outputs = []\<rparr> =
        Inr daemon_connected"
    by (simp add: Process_def InitializeSessionSocket_def sys_accept_def sys_close_def
        daemon_listening_def daemon_connected_def Let_def)
  moreover have "daemon_reachable 384 daemon_listening"
    by (rule daemon_reachable.start) (simp_all add: daemon_listening_def)
  ultimately have "daemon_reachable 384 daemon_connected"
    by (rule daemon_reachable.tick[rotated 2]) (simp add: daemon_listening_def)
  then show ?thesis
    by (simp add: InitializeSessionSocket_def sys_accept_def sys_close_def daemon_connected_def
        Let_def insert_commute)
qed

text \<open>
  C9, amended. Between any two operations of the daemon (poll ticks, outputs, tear-down)
  at most one client connection is live, and it is the installed session descriptor. At
  a poll tick with the listening descriptor readable, when the connection is accepted and
  both \<open>fcntl\<close> calls succeed, the tick accepts the new connection, then closes the prior
  session descriptor if there is one, then installs the new descriptor, which is the only
  live connection from there on; the rest of the tick serves the new descriptor. A tick
  without a readable listening descriptor serves the installed session: it closes it on
  an error flag or a non-positive read and hands a positive read to the CLI. A tick ends
  the process only on an error of the listening descriptor.
\<close>

theorem session_at_most_one:
  assumes "daemon_reachable maxLine d"
  shows "live d = (if mSessionSocket d = - 1 then {} else {mSessionSocket d}) \<and>
     card (live d) \<le> 1 \<and>
     (\<forall>new getfd setfd.
        new \<noteq> - 1 \<and> new \<notin> live d \<and> getfd \<noteq> - 1 \<and> setfd \<noteq> - 1 \<longrightarrow>
        InitializeSessionSocket d new getfd setfd =
          d\<lparr>mSessionSocket := new, live := {new},
            sys := sys d @ SysAccept new #
                     (if mSessionSocket d = - 1 then [] else [SysClose (mSessionSocket d)])\<rparr>) \<and>
     (\<forall>aContext env.
        mListenSocket d \<notin> mErrorFdSet aContext \<longrightarrow>
        (\<exists>d'. Process maxLine d aContext env = Inr d')) \<and>
     (\<forall>aContext env.
        mListenSocket d \<noteq> - 1 \<and> mListenSocket d \<notin> mErrorFdSet aContext \<and>
        mListenSocket d \<in> mReadFdSet aContext \<and>
        accept_rval env \<noteq> - 1 \<and> accept_rval env \<notin> live d \<and>
        getfd_rval env \<noteq> - 1 \<and> setfd_rval env \<noteq> - 1 \<longrightarrow>
        Process maxLine d aContext env =
          Inr (let new = accept_rval env;
                   d1 = d\<lparr>mSessionSocket := new, live := {new},
                          sys := sys d @ SysAccept new #
                            (if mSessionSocket d = - 1 then []
                             else [SysClose (mSessionSocket d)])\<rparr>;
                   closed = d1\<lparr>mSessionSocket := - 1, live := {},
                               sys := sys d1 @ [SysClose new]\<rparr>
               in if new \<in> mErrorFdSet aContext then closed
                  else if new \<in> mReadFdSet aContext then
                    (if read_rval env > 0
                     then foldl (\<lambda>v (text, send_rval).
                                   fst (OutputFormatV maxLine v text send_rval))
                            d1 (cli_outputs env)
                     else closed)
                  else d1)) \<and>
     (\<forall>aContext env.
        mListenSocket d \<noteq> - 1 \<and> mListenSocket d \<notin> mErrorFdSet aContext \<and>
        mListenSocket d \<notin> mReadFdSet aContext \<and> mSessionSocket d \<noteq> - 1 \<longrightarrow>
        Process maxLine d aContext env =
          Inr (let closed = d\<lparr>mSessionSocket := - 1, live := {},
                              sys := sys d @ [SysClose (mSessionSocket d)]\<rparr>
               in if mSessionSocket d \<in> mErrorFdSet aContext then closed
                  else if mSessionSocket d \<in> mReadFdSet aContext then
                    (if read_rval env > 0
                     then foldl (\<lambda>v (text, send_rval).
                                   fst (OutputFormatV maxLine v text send_rval))
                            d (cli_outputs env)
                     else closed)
                  else d))"
proof -
  have si: "session_inv d"
    using assms by (rule daemon_reachable_session_inv)
  then have inv: "live d = (if mSessionSocket d = - 1 then {} else {mSessionSocket d})"
    by (simp add: session_inv_def)
  then have c: "card (live d) \<le> 1" by simp
  have ok: "\<exists>d'. Process maxLine d aContext env = Inr d'"
    if "mListenSocket d \<notin> mErrorFdSet aContext" for aContext env
    using that by (simp add: Process_def Let_def)
  note ini = InitializeSessionSocket_installs[OF si]
  note rep = Process_replaces[OF si, of _ _ maxLine]
  note srv = Process_serves[OF si, of _ maxLine]
  show ?thesis
    apply (intro conjI allI impI)
         apply (rule inv)
        apply (rule c)
       apply (rule ini; simp)
      apply (rule ok; simp)
     apply (rule rep; simp)
    apply (rule srv; simp)
    done
qed

theorem session_at_most_one_witness:
  "daemon_reachable 384 daemon_connected \<and>
   card (live daemon_connected) \<le> 1 \<and>
   Process 384 daemon_connected \<lparr>mReadFdSet = {3}, mErrorFdSet = {}\<rparr>
     \<lparr>accept_rval = 6, getfd_rval = 0, setfd_rval = 0, read_rval = 0, cli_outputs = []\<rparr> =
     Inr \<lparr>mListenSocket = 3, mSessionSocket = 6, live = {6},
          sys = [SysAccept 5, SysAccept 6, SysClose 5]\<rparr>"
proof -
  have "Process 384 daemon_listening \<lparr>mReadFdSet = {3}, mErrorFdSet = {}\<rparr>
          \<lparr>accept_rval = 5, getfd_rval = 0, setfd_rval = 0, read_rval = 0, cli_outputs = []\<rparr> =
        Inr daemon_connected"
    by (simp add: Process_def InitializeSessionSocket_def sys_accept_def sys_close_def
        daemon_listening_def daemon_connected_def Let_def)
  moreover have "daemon_reachable 384 daemon_listening"
    by (rule daemon_reachable.start) (simp_all add: daemon_listening_def)
  ultimately have r: "daemon_reachable 384 daemon_connected"
    by (rule daemon_reachable.tick[rotated 2]) (simp add: daemon_listening_def)
  note t = session_at_most_one[OF r]
  have "card (live daemon_connected) \<le> 1"
    using t by blast
  moreover have "Process 384 daemon_connected \<lparr>mReadFdSet = {3}, mErrorFdSet = {}\<rparr>
     \<lparr>accept_rval = 6, getfd_rval = 0, setfd_rval = 0, read_rval = 0, cli_outputs = []\<rparr> =
     Inr \<lparr>mListenSocket = 3, mSessionSocket = 6, live = {6},
          sys = [SysAccept 5, SysAccept 6, SysClose 5]\<rparr>"
    using t[THEN conjunct2, THEN conjunct2, THEN conjunct2, THEN conjunct2, THEN conjunct1,
        rule_format, of "\<lparr>mReadFdSet = {3}, mErrorFdSet = {}\<rparr>"
        "\<lparr>accept_rval = 6, getfd_rval = 0, setfd_rval = 0, read_rval = 0, cli_outputs = []\<rparr>"]
    by (simp add: daemon_connected_def)
  ultimately show ?thesis
    using r by simp
qed

text \<open>
  C10, as stated: a recognised opcode whose handler returned invalid-arguments, invoked
  with twelve arguments, causes a second transport send. At \<open>mfgcmd 11 0 0 0 0 0 0 0 0 0 0 0\<close>
  with the flag set, ProcessMfgGetInt8 returns before any send (its argument count is not
  1), so the raw frame is the only transport call of the invocation, not a second one.
\<close>

theorem ProcessMfgCommands_known_opcode_12_single_send:
  "calls (fst (ProcessMfgCommands test_radio world_enabled
     [''11'', ''0'', ''0'', ''0'', ''0'', ''0'', ''0'', ''0'', ''0'', ''0'', ''0'', ''0''])) =
     [PlatRadioMfgCommand [11, 0, 0, 0, 0, 0, 0, 0, 0, 0, 0, 0]] \<and>
   length (calls (fst (ProcessMfgCommands test_radio world_enabled
     [''11'', ''0'', ''0'', ''0'', ''0'', ''0'', ''0'', ''0'', ''0'', ''0'', ''0'', ''0'']))) \<noteq> 2"
  by (simp add: ProcessMfgCommands_def MfgCommands_switch_def ProcessMfgGetInt8_def
      MfgCommands_handle_errors_def otPlatRadioMfgCommand_def otCliOutputFormat_def
      world_enabled_def test_radio_def atoi_eval upt_rec Let_def)

text \<open>
  C10, amended. The tail of ProcessMfgCommands sends the raw frame exactly when the switch
  did not succeed and the argument count is twelve. With \<open>mfgEnable = 1\<close> and twelve
  arguments the switch never succeeds and never sends, whatever the opcode, recognised or
  not; the twelve parsed bytes then go out verbatim and unvalidated in a single transport
  call, the response bytes are printed, and the result is OT_ERROR_NONE.
\<close>

theorem ProcessMfgCommands_raw_any_opcode:
  assumes "mfgEnable w = 1" "length aArgs = 12"
    and "plat_MfgCommand R (plat w) (map atoi_u8 aArgs) = (p, resp, n)"
  shows "fst (MfgCommands_switch R w (atoi_u8 (aArgs ! 0)) aArgs) = w \<and>
     snd (MfgCommands_switch R w (atoi_u8 (aArgs ! 0)) aArgs) \<noteq> OT_ERROR_NONE \<and>
     ProcessMfgCommands R w aArgs =
     (w\<lparr>plat := p,
        calls := calls w @ [PlatRadioMfgCommand (map atoi_u8 aArgs)],
        cli_out := cli_out w @ map (\<lambda>idx. (''%d '', [uint (resp ! idx)])) [0..<unat n]
                     @ [(CRLF, [])]\<rparr>, OT_ERROR_NONE) \<and>
     (\<forall>w1 error args.
        calls (fst (MfgCommands_handle_errors R w1 error args)) =
          (if error \<noteq> OT_ERROR_NONE \<and> length args = 12
           then calls w1 @ [PlatRadioMfgCommand (map atoi_u8 args)] else calls w1))"
proof -
  note sw = MfgCommands_switch_12_args[OF assms(2), of R w "atoi_u8 (aArgs ! 0)"]
  have "ProcessMfgCommands R w aArgs =
        MfgCommands_handle_errors R w
          (snd (MfgCommands_switch R w (atoi_u8 (aArgs ! 0)) aArgs)) aArgs"
    using assms(1,2) by (rule ProcessMfgCommands_enabled_12)
  also have "\<dots> = (w\<lparr>plat := p,
        calls := calls w @ [PlatRadioMfgCommand (map atoi_u8 aArgs)],
        cli_out := cli_out w @ map (\<lambda>idx. (''%d '', [uint (resp ! idx)])) [0..<unat n]
                     @ [(CRLF, [])]\<rparr>, OT_ERROR_NONE)"
    using sw(2) assms(2,3) by (rule handle_errors_raw)
  finally show ?thesis
    using sw handle_errors_calls by blast
qed

theorem ProcessMfgCommands_raw_any_opcode_witness:
  "mfgEnable world_enabled = 1 \<and>
   MfgCommands_switch test_radio world_enabled 11
     [''11'', ''0'', ''0'', ''0'', ''0'', ''0'', ''0'', ''0'', ''0'', ''0'', ''0'', ''0''] =
     (world_enabled, OT_ERROR_INVALID_ARGS) \<and>
   ProcessMfgCommands test_radio world_enabled
     [''11'', ''0'', ''0'', ''0'', ''0'', ''0'', ''0'', ''0'', ''0'', ''0'', ''0'', ''0''] =
     (world_enabled\<lparr>calls := [PlatRadioMfgCommand [11, 0, 0, 0, 0, 0, 0, 0, 0, 0, 0, 0]],
        cli_out := [(''%d '', [11]), (''%d '', [0]), (''%d '', [0]), (''%d '', [0]),
                    (''%d '', [0]), (CRLF, [])]\<rparr>, OT_ERROR_NONE)"
  using ProcessMfgCommands_raw_any_opcode[of world_enabled
      "[''11'', ''0'', ''0'', ''0'', ''0'', ''0'', ''0'', ''0'', ''0'', ''0'', ''0'', ''0'']"
      test_radio 0 "[11, 0, 0, 0, 0, 0, 0, 0, 0, 0, 0, 0]" 5]
  by (simp add: world_enabled_def test_radio_def atoi_eval upt_rec
      MfgCommands_switch_def ProcessMfgGetInt8_def)

end
